theory Spec2Isabelle
  imports Complex_Main "HOL-Library.Sublist"
begin

section \<open>Python primitives used by the detectors\<close>

text \<open>
  A Python \<open>str\<close> is modelled by its UTF-8 bytes, and \<open>a in b\<close> on strings is the
  contiguous substring test. The function \<open>lower\<close> below is \<open>str.lower\<close> on ASCII
  text; where a detector lowercases text that need not be ASCII, \<open>str.lower\<close> itself is
  an argument \<open>lw\<close> of the model.

  The number type of the result records is a parameter \<open>'f\<close>. The three detectors
  modelled first compute with it at type \<open>real\<close>, where a decimal literal stands for
  the value it names; the coordinator and the weight update are modelled over any float
  arithmetic (section \<open>Float arithmetic\<close>).
\<close>

fun lower_char :: "char \<Rightarrow> char" where
  "lower_char (Char b0 b1 b2 b3 b4 b5 b6 b7) =
     (if 65 \<le> (of_char (Char b0 b1 b2 b3 b4 b5 b6 b7) :: nat)
         \<and> (of_char (Char b0 b1 b2 b3 b4 b5 b6 b7) :: nat) \<le> 90
      then Char b0 b1 b2 b3 b4 True b6 b7
      else Char b0 b1 b2 b3 b4 b5 b6 b7)"

definition lower :: "string \<Rightarrow> string" where
  "lower s = map lower_char s"

fun contains :: "string \<Rightarrow> string \<Rightarrow> bool" where
  "contains sub [] = (sub = [])"
| "contains sub (c # cs) = (prefix sub (c # cs) \<or> contains sub cs)"

text \<open>
  \<open>str(e)\<close> of a raised exception. The texts written here for faults of the Python
  runtime are abbreviations; no property below depends on their wording.
\<close>

type_synonym exn = string

section \<open>The file system as the adapters observe it\<close>

text \<open>
  A path either does not exist, or names a node. Of a readable file the adapters observe
  the SHA-256 hex digest of its bytes (\<open>hashlib.sha256(content).hexdigest()\<close>), its text
  as decoded with \<open>encoding='utf-8', errors='ignore'\<close>, and its size
  (\<open>os.path.getsize\<close>). A node that exists but cannot be opened (a directory, a file without
  read permission) makes \<open>open\<close> raise; only its size is observed.
\<close>

datatype file_node =
    Regular (sha256_hex: string) (ftext: string) (fsize: nat)
  | Unreadable (usize: nat)

type_synonym filesystem = "string \<rightharpoonup> file_node"

section \<open>Signature detector\<close>

record sig_details =
  d_hash :: "string option"
  d_signature_match :: "bool option"
  d_rule :: "string option"
  d_matches :: "nat option"

record 'f sig_result =
  sig_detected :: bool
  sig_threat_type :: string
  sig_confidence :: "'f"
  sig_method :: string
  sig_timestamp :: string
  sig_details :: "sig_details option"
  sig_error :: "string option"

definition signature_database :: "(string \<times> string) list" where
  "signature_database =
     [(''e3b0c44298fc1c149afbf4c8996fb92427ae41e4649b934ca495991b7852b855'', ''Trojan.Generic''),
      (''d41d8cd98f00b204e9800998ecf8427e'', ''Malware.Sample''),
      (''5d41402abc4b2a76b9719d911017c592'', ''Virus.Test'')]"

text \<open>Each rule: its name and its strings (the condition text is not interpreted).\<close>

definition yara_rules :: "(string \<times> string list) list" where
  "yara_rules = [(''suspicious_strings'', [''cmd.exe'', ''powershell'', ''DownloadString''])]"

definition calculate_hash :: "filesystem \<Rightarrow> string \<Rightarrow> string" where
  "calculate_hash fs file_path =
     (case fs file_path of
        Some (Regular h t n) \<Rightarrow> h
      | _ \<Rightarrow> ''error_hash'')"

text \<open>The inner loop of \<open>_check_yara_rules\<close>: how many of a rule's strings occur.\<close>

fun count_matches :: "string list \<Rightarrow> string \<Rightarrow> nat \<Rightarrow> nat" where
  "count_matches [] content n = n"
| "count_matches (s # ss) content n =
     count_matches ss content (if contains (lower s) content then n + 1 else n)"

text \<open>The outer loop: the first rule with at least two matches returns.\<close>

fun yara_loop :: "(string \<times> string list) list \<Rightarrow> string \<Rightarrow> string \<Rightarrow> real sig_result" where
  "yara_loop [] content now =
     \<lparr>sig_detected = False, sig_threat_type = ''Clean'', sig_confidence = 0.0, sig_method = ''yara'',
      sig_timestamp = now, sig_details = None, sig_error = None\<rparr>"
| "yara_loop ((rule_name, strings) # rules) content now =
     (let n = count_matches strings content 0 in
      if n \<ge> 2 then
        \<lparr>sig_detected = True, sig_threat_type = ''YARA: '' @ rule_name, sig_confidence = 0.8,
         sig_method = ''yara'', sig_timestamp = now,
         sig_details = Some \<lparr>d_hash = None, d_signature_match = None,
                         d_rule = Some rule_name, d_matches = Some n\<rparr>,
         sig_error = None\<rparr>
      else yara_loop rules content now)"

definition check_yara_rules :: "filesystem \<Rightarrow> string \<Rightarrow> string \<Rightarrow> real sig_result" where
  "check_yara_rules fs now file_path =
     (case fs file_path of
        Some (Regular h t n) \<Rightarrow> yara_loop yara_rules (lower t) now
      | _ \<Rightarrow>
        \<lparr>sig_detected = False, sig_threat_type = ''Error'', sig_confidence = 0.0, sig_method = ''yara'',
         sig_timestamp = now, sig_details = None, sig_error = Some ''cannot open file''\<rparr>)"

text \<open>
  \<open>SignatureDetector.detect_threats\<close>. The argument \<open>now\<close> is the reading of
  \<open>datetime.now().isoformat()\<close> that stamps the result.
\<close>

definition sig_detect_threats :: "filesystem \<Rightarrow> string \<Rightarrow> string \<Rightarrow> real sig_result" where
  "sig_detect_threats fs now file_path =
     (if fs file_path = None then
        \<lparr>sig_detected = False, sig_threat_type = ''Unknown'', sig_confidence = 0.0, sig_method = ''signature'',
         sig_timestamp = now, sig_details = None, sig_error = Some ''File not found''\<rparr>
      else
        let file_hash = calculate_hash fs file_path in
        case map_of signature_database file_hash of
          Some label \<Rightarrow>
            \<lparr>sig_detected = True, sig_threat_type = label, sig_confidence = 0.95, sig_method = ''signature'',
             sig_timestamp = now,
             sig_details = Some \<lparr>d_hash = Some file_hash, d_signature_match = Some True,
                             d_rule = None, d_matches = None\<rparr>,
             sig_error = None\<rparr>
        | None \<Rightarrow>
            let yara_result = check_yara_rules fs now file_path in
            if sig_detected yara_result then yara_result
            else
              \<lparr>sig_detected = False, sig_threat_type = ''Clean'', sig_confidence = 0.0,
               sig_method = ''signature'', sig_timestamp = now,
               sig_details = Some \<lparr>d_hash = Some file_hash, d_signature_match = Some False,
                               d_rule = None, d_matches = None\<rparr>,
               sig_error = None\<rparr>)"

text \<open>
  How many of the strings of the rule \<open>suspicious_strings\<close> occur in a text, compared
  without case as \<open>_check_yara_rules\<close> compares them.
\<close>

definition rule_hits :: "string \<Rightarrow> nat" where
  "rule_hits t =
     length (filter (\<lambda>s. contains (lower s) (lower t))
               [''cmd.exe'', ''powershell'', ''DownloadString''])"

section \<open>File analyzer\<close>

text \<open>
  \<open>os.path.splitext(p)[1]\<close> for POSIX paths: the extension starts at the last dot of the
  last path component, leading dots of that component not counting.
\<close>

definition splitext_ext :: "string \<Rightarrow> string" where
  "splitext_ext p =
     (let base = rev (takeWhile (\<lambda>c. c \<noteq> CHR ''/'') (rev p));
          body = dropWhile (\<lambda>c. c = CHR ''.'') base
      in if CHR ''.'' \<in> set body
         then CHR ''.'' # rev (takeWhile (\<lambda>c. c \<noteq> CHR ''.'') (rev body))
         else [])"

record 'f file_features =
  f_file_size :: nat
  f_extension :: string
  f_is_binary :: "bool option"
  f_malicious_patterns :: "string list option"
  f_threat_score :: "'f option"
  f_pattern_count :: "nat option"

record 'f file_result =
  file_prediction :: string
  file_confidence :: "'f"
  file_threat_type :: string
  file_timestamp :: string
  file_features :: "'f file_features option"
  file_error :: "string option"

definition malicious_patterns :: "string list" where
  "malicious_patterns =
     [''cmd.exe'', ''powershell'', ''DownloadString'', ''Invoke-Expression'',
      ''regsvr32'', ''rundll32'', ''wscript'', ''cscript'', ''mshta'']"

definition suspicious_extensions :: "string list" where
  "suspicious_extensions = [''.exe'', ''.bat'', ''.cmd'', ''.ps1'', ''.vbs'', ''.js'']"

text \<open>The pattern loop of \<open>predict\<close>, carrying \<open>malicious_count\<close> and \<open>found_patterns\<close>.\<close>

fun scan_patterns ::
  "(string \<Rightarrow> string) \<Rightarrow> string list \<Rightarrow> string \<Rightarrow> nat \<times> string list
     \<Rightarrow> nat \<times> string list" where
  "scan_patterns lw [] content acc = acc"
| "scan_patterns lw (pattern # ps) content (malicious_count, found_patterns) =
     scan_patterns lw ps content
       (if contains (lw pattern) content
        then (malicious_count + 1, found_patterns @ [pattern])
        else (malicious_count, found_patterns))"

text \<open>
  \<open>FileAnalyzer.predict\<close>; \<open>lw\<close> is \<open>str.lower\<close>, \<open>now\<close> the clock reading that
  stamps the result.
\<close>

definition predict ::
  "(string \<Rightarrow> string) \<Rightarrow> filesystem \<Rightarrow> string \<Rightarrow> string \<Rightarrow> real file_result" where
  "predict lw fs now file_path =
     (case fs file_path of
        None \<Rightarrow>
          \<lparr>file_prediction = ''error'', file_confidence = 0.0,
           file_threat_type = ''File Not Found'', file_timestamp = now,
           file_features = None, file_error = Some ''File not found''\<rparr>
      | Some node \<Rightarrow>
          let file_size = (case node of Regular h t n \<Rightarrow> n | Unreadable n \<Rightarrow> n);
              file_extension = lw (splitext_ext file_path);
              is_suspicious_extension = (file_extension \<in> set suspicious_extensions)
          in (case node of
            Unreadable n \<Rightarrow>
              if is_suspicious_extension \<and> file_size > 1024 then
                \<lparr>file_prediction = ''suspicious'', file_confidence = 0.6,
                 file_threat_type = ''Suspicious Binary'', file_timestamp = now,
                 file_features = Some \<lparr>f_file_size = file_size, f_extension = file_extension,
                   f_is_binary = Some True, f_malicious_patterns = None,
                   f_threat_score = None, f_pattern_count = None\<rparr>,
                 file_error = None\<rparr>
              else
                \<lparr>file_prediction = ''benign'', file_confidence = 0.8,
                 file_threat_type = ''Clean File'', file_timestamp = now,
                 file_features = Some \<lparr>f_file_size = file_size, f_extension = file_extension,
                   f_is_binary = Some True, f_malicious_patterns = None,
                   f_threat_score = None, f_pattern_count = None\<rparr>,
                 file_error = None\<rparr>
          | Regular h t n \<Rightarrow>
              let content = lw t;
                  (malicious_count, found_patterns) = scan_patterns lw malicious_patterns content (0, []);
                  threat_score = real malicious_count / real (length malicious_patterns);
                  (prediction, confidence, threat_type) =
                    (if threat_score > 0.3 then
                       (''malicious'', min 0.9 (0.5 + threat_score * 0.4), ''Script-based Malware'')
                     else if threat_score > 0.1 then
                       (''suspicious'', 0.6, ''Potentially Suspicious'')
                     else (''benign'', 0.8, ''Clean File''))
              in \<lparr>file_prediction = prediction, file_confidence = confidence,
                  file_threat_type = threat_type, file_timestamp = now,
                  file_features = Some \<lparr>f_file_size = file_size, f_extension = file_extension,
                    f_is_binary = None, f_malicious_patterns = Some found_patterns,
                    f_threat_score = Some threat_score, f_pattern_count = Some malicious_count\<rparr>,
                  file_error = None\<rparr>))"

text \<open>
  The number of the nine patterns that occur, lowercased, in the lowercased text: the
  pattern count the file adapter's threat score is built from.
\<close>

definition pattern_hits :: "(string \<Rightarrow> string) \<Rightarrow> string \<Rightarrow> nat" where
  "pattern_hits lw t =
     length (filter (\<lambda>pat. contains (lw pat) (lw t)) malicious_patterns)"


section \<open>Float arithmetic\<close>

text \<open>
  The operations a detector or the coordinator performs on Python floats, over a carrier
  \<open>'f\<close>: addition, multiplication, division, the comparisons \<open>>=\<close>, \<open>>\<close> and \<open><\<close>,
  and \<open>lit\<close>, the float a decimal literal denotes. Every property stated over an
  arbitrary arithmetic holds for IEEE doubles with their rounding, infinities and NaN.
\<close>

record 'f arith =
  fadd :: "'f \<Rightarrow> 'f \<Rightarrow> 'f"
  fmul :: "'f \<Rightarrow> 'f \<Rightarrow> 'f"
  fdiv :: "'f \<Rightarrow> 'f \<Rightarrow> 'f"
  fge :: "'f \<Rightarrow> 'f \<Rightarrow> bool"
  fgt :: "'f \<Rightarrow> 'f \<Rightarrow> bool"
  flt :: "'f \<Rightarrow> 'f \<Rightarrow> bool"
  lit :: "real \<Rightarrow> 'f"

text \<open>\<open>min(a, b)\<close>: the first argument stays unless the second is smaller.\<close>

definition pymin :: "'f arith \<Rightarrow> 'f \<Rightarrow> 'f \<Rightarrow> 'f" where
  "pymin F a b = (if flt F b a then b else a)"

text \<open>Exact arithmetic on the reals: no rounding, no overflow.\<close>

definition exact :: "real arith" where
  "exact =
     \<lparr>fadd = (\<lambda>a b. a + b), fmul = (\<lambda>a b. a * b), fdiv = (\<lambda>a b. a / b),
      fge = (\<lambda>a b. a \<ge> b), fgt = (\<lambda>a b. a > b), flt = (\<lambda>a b. a < b),
      lit = (\<lambda>x. x)\<rparr>"

section \<open>Behavioral analyzer\<close>

subsection \<open>String helpers\<close>









subsection \<open>The snapshot\<close>

text \<open>
  A process entry carries what psutil reported: \<open>name\<close> and \<open>cmdline\<close> are \<open>None\<close>
  when psutil could not read them. A connection entry carries the formatted addresses,
  \<open>None\<close> when the socket has none.
\<close>

record process =
  p_pid :: nat
  p_name :: "string option"
  p_cmdline :: "string list option"

record connection =
  c_local_address :: "string option"
  c_remote_address :: "string option"
  c_status :: string
  c_pid :: "nat option"

record snapshot =
  s_timestamp :: string
  s_error :: "string option"
  processes :: "process list"
  network_connections :: "connection list"

record command_match =
  m_process :: "string option"
  m_command :: string
  m_full_cmdline :: string

subsection \<open>Inputs of the encrypted-traffic and social-engineering detectors\<close>

text \<open>
  A list entry that should be a string is \<open>None\<close> when the caller put something else
  there (calling \<open>.lower()\<close> on it raises). A connection entry of the network data that
  is a dictionary carries its \<open>port\<close> key, if it has one.
\<close>

record net_connection =
  nc_is_dict :: bool
  nc_port :: "int option"

record network_data =
  nd_tls_hosts :: "string option list"
  nd_dns_queries :: "string option list"
  nd_connections :: "net_connection list"

record email =
  e_content :: string
  e_subject :: string
  e_sender :: string

record communication =
  c_email :: "email option"
  c_urls :: "string option list"
  c_content :: string

text \<open>What \<open>_analyze_email\<close>, \<open>_analyze_url\<close> and \<open>_analyze_content\<close> return.\<close>

record 'f part_result =
  pr_suspicious :: bool
  pr_risk_score :: "'f"
  pr_risk_level :: string
  pr_indicators :: "string list"
  pr_scores :: "(nat \<times> nat \<times> nat) option"
  pr_url :: "string option"
  pr_error :: "string option"

subsection \<open>Threat records and risk results\<close>

datatype 'f threat_details =
    SignatureDetails "'f sig_result"
  | FileDetails "'f file_result"
  | ProcessDetails "process list"
  | CommandDetails "command_match list"
  | ConnectionDetails "connection list"
  | HostDetails string
  | DomainDetails string
  | NetConnectionDetails net_connection
  | PartDetails "'f part_result"

record 'f threat =
  t_type :: string
  t_details :: "'f threat_details"
  t_module :: "string option"
  t_risk_level :: "string option"

text \<open>The result shape shared by the behavioral, encrypted and social-engineering modules.\<close>

record 'f risk_result =
  r_threats_detected :: "'f threat list"
  r_threat_types :: "string list"
  r_threat_level :: string
  r_overall_risk_score :: "'f"
  r_timestamp :: string
  r_analysis_summary :: "(string \<times> nat) list option"
  r_error :: "string option"

subsection \<open>\<open>analyze_behavior\<close>\<close>










subsection \<open>\<open>collect_behavioral_data\<close>\<close>

text \<open>
  What psutil reports of the machine at the time of the call: the processes whose info
  could be read, and the inet connections (\<open>None\<close> when \<open>psutil.net_connections\<close>
  raises, which the collector swallows). The system metrics are not modelled: the analysis
  never reads them.
\<close>

record live_connection =
  lc_laddr :: "(string \<times> nat) option"
  lc_raddr :: "(string \<times> nat) option"
  lc_status :: string
  lc_pid :: "nat option"

record machine =
  live_processes :: "process list"
  live_connections :: "live_connection list option"



section \<open>Encrypted-traffic detector\<close>














section \<open>Social-engineering detector\<close>



















section \<open>Ensemble coordinator\<close>

text \<open>
  What is stored under a module's name: the adapter's own result, or the dictionary
  \<open>{"error": str(e)}\<close> the coordinator writes when the adapter call raised.
\<close>

datatype 'f module_result =
    SignatureResult "'f sig_result"
  | FileAnalysisResult "'f file_result"
  | RiskResult "'f risk_result"
  | ErrorOnly exn

record ('s, 'n, 'c) input_bundle =
  b_file_path :: "string option"
  b_system_data :: "'s option"
  b_network_data :: "'n option"
  b_communication_data :: "'c option"

text \<open>
  The five detector objects the coordinator holds, as the calls it makes on them. A call
  either raises (\<open>Inl\<close>, with \<open>str(e)\<close>) or returns a result.
\<close>

record ('f, 'n, 'c) adapters =
  a_signature :: "string \<Rightarrow> exn + 'f sig_result"
  a_file :: "string \<Rightarrow> exn + 'f file_result"
  a_collect :: "exn + snapshot"
  a_behavior :: "snapshot \<Rightarrow> exn + 'f risk_result"
  a_encrypted :: "'n \<Rightarrow> exn + 'f risk_result"
  a_social :: "'c \<Rightarrow> exn + 'f risk_result"

record 'f verdict =
  v_timestamp :: string
  v_threats_detected :: "'f threat list"
  v_threat_types :: "string list"
  v_overall_risk_score :: "'f"
  v_threat_level :: string
  v_confidence :: "'f"
  v_module_results :: "string \<rightharpoonup> 'f module_result"
  v_threat_count :: "nat option"
  v_error :: "string option"

definition store_result :: "string \<Rightarrow> 'f module_result \<Rightarrow> 'f verdict \<Rightarrow> 'f verdict" where
  "store_result name r results =
     results\<lparr>v_module_results := (v_module_results results)(name \<mapsto> r)\<rparr>"

definition run_signature ::
  "('f, 'n, 'c) adapters \<Rightarrow> ('s, 'n, 'c) input_bundle \<Rightarrow> 'f verdict \<Rightarrow> 'f verdict" where
  "run_signature A data results =
     (case b_file_path data of
        None \<Rightarrow> results
      | Some p \<Rightarrow>
          (case a_signature A p of
             Inl e \<Rightarrow> store_result ''signature'' (ErrorOnly e) results
           | Inr sig_result \<Rightarrow>
               let results1 = store_result ''signature'' (SignatureResult sig_result) results in
               if sig_detected sig_result then
                 results1\<lparr>v_threats_detected := v_threats_detected results1 @
                            [\<lparr>t_type = ''Signature Match'',
                              t_details = SignatureDetails sig_result,
                              t_module = Some ''signature'', t_risk_level = None\<rparr>],
                          v_threat_types := v_threat_types results1 @ [''Signature Match'']\<rparr>
               else results1))"

definition run_file_analysis ::
  "('f, 'n, 'c) adapters \<Rightarrow> ('s, 'n, 'c) input_bundle \<Rightarrow> 'f verdict \<Rightarrow> 'f verdict" where
  "run_file_analysis A data results =
     (case b_file_path data of
        None \<Rightarrow> results
      | Some p \<Rightarrow>
          (case a_file A p of
             Inl e \<Rightarrow> store_result ''file_analysis'' (ErrorOnly e) results
           | Inr file_result \<Rightarrow>
               let results1 = store_result ''file_analysis'' (FileAnalysisResult file_result) results in
               if file_prediction file_result \<in> set [''malicious'', ''suspicious''] then
                 results1\<lparr>v_threats_detected := v_threats_detected results1 @
                            [\<lparr>t_type = ''File-based Threat'',
                              t_details = FileDetails file_result,
                              t_module = Some ''file_analysis'', t_risk_level = None\<rparr>],
                          v_threat_types := v_threat_types results1 @ [''File-based Threat'']\<rparr>
               else results1))"

text \<open>The tail shared by the last three blocks: store, then extend the two lists.\<close>

definition store_risk_result :: "string \<Rightarrow> 'f risk_result \<Rightarrow> 'f verdict \<Rightarrow> 'f verdict" where
  "store_risk_result name r results =
     (let results1 = store_result name (RiskResult r) results in
      if r_threats_detected r \<noteq> [] then
        results1\<lparr>v_threats_detected := v_threats_detected results1 @ r_threats_detected r,
                 v_threat_types := v_threat_types results1 @ r_threat_types r\<rparr>
      else results1)"

text \<open>
  The behavioral block: the value under \<open>system_data\<close> is not read; the data analysed is
  what \<open>collect_behavioral_data()\<close> returns.
\<close>

definition run_behavioral ::
  "('f, 'n, 'c) adapters \<Rightarrow> ('s, 'n, 'c) input_bundle \<Rightarrow> 'f verdict \<Rightarrow> 'f verdict" where
  "run_behavioral A data results =
     (case b_system_data data of
        None \<Rightarrow> results
      | Some unused \<Rightarrow>
          (case a_collect A of
             Inl e \<Rightarrow> store_result ''behavioral'' (ErrorOnly e) results
           | Inr behavioral_data \<Rightarrow>
               (case a_behavior A behavioral_data of
                  Inl e \<Rightarrow> store_result ''behavioral'' (ErrorOnly e) results
                | Inr behavioral_result \<Rightarrow>
                    store_risk_result ''behavioral'' behavioral_result results)))"

definition run_encrypted ::
  "('f, 'n, 'c) adapters \<Rightarrow> ('s, 'n, 'c) input_bundle \<Rightarrow> 'f verdict \<Rightarrow> 'f verdict" where
  "run_encrypted A data results =
     (case b_network_data data of
        None \<Rightarrow> results
      | Some nd \<Rightarrow>
          (case a_encrypted A nd of
             Inl e \<Rightarrow> store_result ''encrypted'' (ErrorOnly e) results
           | Inr encrypted_result \<Rightarrow> store_risk_result ''encrypted'' encrypted_result results))"

definition run_social_engineering ::
  "('f, 'n, 'c) adapters \<Rightarrow> ('s, 'n, 'c) input_bundle \<Rightarrow> 'f verdict \<Rightarrow> 'f verdict" where
  "run_social_engineering A data results =
     (case b_communication_data data of
        None \<Rightarrow> results
      | Some cd \<Rightarrow>
          (case a_social A cd of
             Inl e \<Rightarrow> store_result ''social_engineering'' (ErrorOnly e) results
           | Inr se_result \<Rightarrow> store_risk_result ''social_engineering'' se_result results))"

subsection \<open>The ensemble decision\<close>









subsection \<open>\<open>detect_threats\<close>\<close>

text \<open>
  The five blocks run in order on the \<open>results\<close> dictionary, then the decision is
  merged in. The outer \<open>except\<close> branch of \<open>detect_threats\<close> needs a fault outside the
  five guarded blocks, which a well-typed bundle cannot produce. The argument \<open>now\<close> is
  the coordinator's own clock reading.
\<close>

definition initial_results :: "'f arith \<Rightarrow> string \<Rightarrow> 'f verdict" where
  "initial_results F now =
     \<lparr>v_timestamp = now, v_threats_detected = [], v_threat_types = [],
      v_overall_risk_score = lit F 0.0, v_threat_level = ''low'', v_confidence = lit F 0.0,
      v_module_results = Map.empty, v_threat_count = None, v_error = None\<rparr>"

definition run_modules ::
  "('f, 'n, 'c) adapters \<Rightarrow> ('s, 'n, 'c) input_bundle \<Rightarrow> 'f verdict \<Rightarrow> 'f verdict" where
  "run_modules A data results =
     run_social_engineering A data
       (run_encrypted A data
         (run_behavioral A data
           (run_file_analysis A data
             (run_signature A data results))))"




subsection \<open>\<open>update_detection_weights\<close>\<close>

text \<open>The values a caller may put in the weight dictionary.\<close>

datatype 'f pyval = PyNum "'f" | PyStr string | PyNone

definition default_weights_in :: "'f arith \<Rightarrow> (string \<times> 'f) list" where
  "default_weights_in F =
     [(''signature'', lit F 0.25), (''file_analysis'', lit F 0.20),
      (''behavioral'', lit F 0.20), (''encrypted'', lit F 0.15),
      (''social_engineering'', lit F 0.20)]"

text \<open>
  \<open>sum(values)\<close>, starting from 0: adding a value that is not a number raises
  \<open>TypeError\<close>.
\<close>

fun py_sum :: "'f arith \<Rightarrow> 'f pyval list \<Rightarrow> 'f \<Rightarrow> exn + 'f" where
  "py_sum F [] acc = Inr acc"
| "py_sum F (PyNum x # vs) acc = py_sum F vs (fadd F acc x)"
| "py_sum F (v # vs) acc = Inl ''unsupported operand type(s) for +''"

text \<open>The dictionary comprehension \<open>{k: v/total_weight ...}\<close>.\<close>

fun normalise :: "'f arith \<Rightarrow> (string \<times> 'f pyval) list \<Rightarrow> 'f \<Rightarrow> exn + (string \<times> 'f) list" where
  "normalise F [] total_weight = Inr []"
| "normalise F ((k, PyNum x) # kvs) total_weight =
     (case normalise F kvs total_weight of
        Inl e \<Rightarrow> Inl e
      | Inr rest \<Rightarrow> Inr ((k, fdiv F x total_weight) # rest))"
| "normalise F ((k, v) # kvs) total_weight = Inl ''unsupported operand type(s) for /''"

text \<open>
  The stored weights before and after; the second component is what the \<open>except\<close>
  branch prints.
\<close>

definition update_detection_weights_in ::
  "'f arith \<Rightarrow> (string \<times> 'f) list \<Rightarrow> (string \<times> 'f pyval) list
     \<Rightarrow> (string \<times> 'f) list \<times> string option" where
  "update_detection_weights_in F detection_weights new_weights =
     (case py_sum F (map snd new_weights) (lit F 0) of
        Inl e \<Rightarrow> (detection_weights, Some (''Error updating weights: '' @ e))
      | Inr total_weight \<Rightarrow>
          if fgt F total_weight (lit F 0) then
            (case normalise F new_weights total_weight of
               Inl e \<Rightarrow> (detection_weights, Some (''Error updating weights: '' @ e))
             | Inr normalised \<Rightarrow> (normalised, None))
          else (default_weights_in F, None))"


definition update_detection_weights ::
  "(string \<times> real) list \<Rightarrow> (string \<times> real pyval) list \<Rightarrow> (string \<times> real) list \<times> string option" where
  "update_detection_weights detection_weights new_weights =
     update_detection_weights_in exact detection_weights new_weights"

definition is_number :: "'f pyval \<Rightarrow> bool" where
  "is_number v = (case v of PyNum x \<Rightarrow> True | _ \<Rightarrow> False)"

section \<open>IEEE double arithmetic\<close>

text \<open>
  Python floats as values: a finite double (the real number it denotes), an infinity, or
  NaN. The two zeros are not told apart; no comparison below does. \<open>round_double\<close> is
  round-to-nearest-even at 53 bits with the exponent range of binary64: results of
  magnitude \<open>2 ^ 1024\<close> or more overflow to an infinity.
\<close>

datatype fnum = Fin real | PInf | NInf | NaN

definition round_even :: "real \<Rightarrow> int" where
  "round_even r =
     (let f = \<lfloor>r\<rfloor> in
      if r - of_int f < 1 / 2 then f
      else if r - of_int f > 1 / 2 then f + 1
      else if even f then f else f + 1)"

definition overflow_threshold :: real where
  "overflow_threshold = 2 ^ 1024"

definition round_double :: "real \<Rightarrow> fnum" where
  "round_double x =
     (if x = 0 then Fin 0
      else
        let e = max \<lfloor>log 2 \<bar>x\<bar>\<rfloor> (- 1022);
            ulp = 2 powi (e - 52);
            y = of_int (round_even (x / ulp)) * ulp
        in if \<bar>y\<bar> \<ge> overflow_threshold then (if x > 0 then PInf else NInf) else Fin y)"

fun d_add :: "fnum \<Rightarrow> fnum \<Rightarrow> fnum" where
  "d_add (Fin a) (Fin b) = round_double (a + b)"
| "d_add NaN y = NaN"
| "d_add x NaN = NaN"
| "d_add PInf NInf = NaN"
| "d_add NInf PInf = NaN"
| "d_add PInf y = PInf"
| "d_add x PInf = PInf"
| "d_add NInf y = NInf"
| "d_add x NInf = NInf"

definition d_sign :: "fnum \<Rightarrow> int" where
  "d_sign x =
     (case x of
        Fin a \<Rightarrow> (if a > 0 then 1 else if a < 0 then - 1 else 0)
      | PInf \<Rightarrow> 1 | NInf \<Rightarrow> - 1 | NaN \<Rightarrow> 0)"

definition d_inf :: "int \<Rightarrow> fnum" where
  "d_inf s = (if s > 0 then PInf else if s < 0 then NInf else NaN)"

fun d_mul :: "fnum \<Rightarrow> fnum \<Rightarrow> fnum" where
  "d_mul (Fin a) (Fin b) = round_double (a * b)"
| "d_mul NaN y = NaN"
| "d_mul x NaN = NaN"
| "d_mul x y = d_inf (d_sign x * d_sign y)"

text \<open>
  Division of finite floats by zero raises \<open>ZeroDivisionError\<close> in Python; the coordinator
  divides by 10.0 and by a sum it found positive only, so that case is given NaN here.
\<close>

fun d_div :: "fnum \<Rightarrow> fnum \<Rightarrow> fnum" where
  "d_div (Fin a) (Fin b) = (if b = 0 then NaN else round_double (a / b))"
| "d_div NaN y = NaN"
| "d_div x NaN = NaN"
| "d_div (Fin a) y = Fin 0"
| "d_div x (Fin b) = d_inf (d_sign x * (if b < 0 then - 1 else 1))"
| "d_div x y = NaN"

fun d_lt :: "fnum \<Rightarrow> fnum \<Rightarrow> bool" where
  "d_lt (Fin a) (Fin b) = (a < b)"
| "d_lt NaN y = False"
| "d_lt x NaN = False"
| "d_lt NInf NInf = False"
| "d_lt NInf y = True"
| "d_lt x PInf = (x \<noteq> PInf)"
| "d_lt x y = False"

definition d_gt :: "fnum \<Rightarrow> fnum \<Rightarrow> bool" where
  "d_gt x y = d_lt y x"

definition d_ge :: "fnum \<Rightarrow> fnum \<Rightarrow> bool" where
  "d_ge x y = (x \<noteq> NaN \<and> y \<noteq> NaN \<and> \<not> d_lt x y)"

definition double :: "fnum arith" where
  "double =
     \<lparr>fadd = d_add, fmul = d_mul, fdiv = d_div, fge = d_ge, fgt = d_gt, flt = d_lt,
      lit = round_double\<rparr>"

text \<open>Two weights whose sum overflows: each is the double \<open>2 ^ 1023\<close>.\<close>

definition huge :: real where
  "huge = 2 ^ 1023"

definition huge_weights :: "(string \<times> fnum pyval) list" where
  "huge_weights = [(''signature'', PyNum (Fin huge)), (''behavioral'', PyNum (Fin huge))]"

section \<open>Vocabulary of the coordinator's properties\<close>

text \<open>
  What the coordinator's call sequence for one module does on a bundle: \<open>None\<close> when the
  bundle lacks the part that module needs (or the name is not a module's), otherwise the
  raised fault or the returned result.
\<close>

definition wrap_outcome :: "('a \<Rightarrow> 'f module_result) \<Rightarrow> exn + 'a \<Rightarrow> exn + 'f module_result" where
  "wrap_outcome C out = (case out of Inl e \<Rightarrow> Inl e | Inr r \<Rightarrow> Inr (C r))"

definition module_outcome ::
  "('f, 'n, 'c) adapters \<Rightarrow> ('s, 'n, 'c) input_bundle \<Rightarrow> string
     \<Rightarrow> (exn + 'f module_result) option" where
  "module_outcome A data name =
     (if name = ''signature'' then
        map_option (\<lambda>p. wrap_outcome SignatureResult (a_signature A p)) (b_file_path data)
      else if name = ''file_analysis'' then
        map_option (\<lambda>p. wrap_outcome FileAnalysisResult (a_file A p)) (b_file_path data)
      else if name = ''behavioral'' then
        map_option (\<lambda>unused.
            case a_collect A of
              Inl e \<Rightarrow> Inl e
            | Inr behavioral_data \<Rightarrow> wrap_outcome RiskResult (a_behavior A behavioral_data))
          (b_system_data data)
      else if name = ''encrypted'' then
        map_option (\<lambda>nd. wrap_outcome RiskResult (a_encrypted A nd)) (b_network_data data)
      else if name = ''social_engineering'' then
        map_option (\<lambda>cd. wrap_outcome RiskResult (a_social A cd)) (b_communication_data data)
      else None)"

text \<open>What is stored for an outcome, and the threat records an outcome adds.\<close>

definition stored :: "exn + 'f module_result \<Rightarrow> 'f module_result" where
  "stored out = (case out of Inl e \<Rightarrow> ErrorOnly e | Inr r \<Rightarrow> r)"

fun result_threats :: "'f module_result \<Rightarrow> 'f threat list" where
  "result_threats (SignatureResult r) =
     (if sig_detected r then
        [\<lparr>t_type = ''Signature Match'', t_details = SignatureDetails r,
          t_module = Some ''signature'', t_risk_level = None\<rparr>]
      else [])"
| "result_threats (FileAnalysisResult r) =
     (if file_prediction r \<in> set [''malicious'', ''suspicious''] then
        [\<lparr>t_type = ''File-based Threat'', t_details = FileDetails r,
          t_module = Some ''file_analysis'', t_risk_level = None\<rparr>]
      else [])"
| "result_threats (RiskResult r) = r_threats_detected r"
| "result_threats (ErrorOnly e) = []"

definition outcome_threats :: "(exn + 'f module_result) option \<Rightarrow> 'f threat list" where
  "outcome_threats out =
     (case out of Some (Inr r) \<Rightarrow> result_threats r | _ \<Rightarrow> [])"

definition module_order :: "string list" where
  "module_order =
     [''signature'', ''file_analysis'', ''behavioral'', ''encrypted'', ''social_engineering'']"

text \<open>The weight entries of every module but one.\<close>

definition weights_without :: "string \<Rightarrow> (string \<times> 'f) list \<Rightarrow> (string \<times> 'f) list" where
  "weights_without name W = filter (\<lambda>item. fst item \<noteq> name) W"

text \<open>\<open>module_result.get("timestamp")\<close>.\<close>

fun timestamp_of :: "'f module_result \<Rightarrow> string option" where
  "timestamp_of (SignatureResult r) = Some (sig_timestamp r)"
| "timestamp_of (FileAnalysisResult r) = Some (file_timestamp r)"
| "timestamp_of (RiskResult r) = Some (r_timestamp r)"
| "timestamp_of (ErrorOnly e) = None"

subsection \<open>The aggregate as the specification words it\<close>

text \<open>
  A stored result is an error result when it carries an error marker: the coordinator's
  record of a raised call, or an adapter's own error-shaped result.
\<close>

fun is_error_result :: "'f module_result \<Rightarrow> bool" where
  "is_error_result (ErrorOnly e) = True"
| "is_error_result (SignatureResult r) = (\<exists>msg. sig_error r = Some msg)"
| "is_error_result (FileAnalysisResult r) = (\<exists>msg. file_error r = Some msg)"
| "is_error_result (RiskResult r) = (\<exists>msg. r_error r = Some msg)"

text \<open>
  The contribution \<open>(to the risk total, to the confidence total)\<close> of one weighted module,
  \<open>None\<close> when it adds nothing. Signature and file analysis: weight x confidence x 10
  and weight x confidence, only when the verdict was positive. Behavioral, encrypted and
  social engineering: weight x overall risk score and weight x (overall risk score / 10);
  a module of these three that did not run counts with overall risk score 0.0. A module
  with an error result, and a weight entry under any other name, add nothing.
\<close>

fun positive_confidence :: "string \<Rightarrow> 'f module_result \<Rightarrow> 'f option" where
  "positive_confidence name (SignatureResult r) =
     (if name = ''signature'' \<and> sig_detected r then Some (sig_confidence r) else None)"
| "positive_confidence name (FileAnalysisResult r) =
     (if name = ''file_analysis''
         \<and> (file_prediction r = ''malicious'' \<or> file_prediction r = ''suspicious'')
      then Some (file_confidence r) else None)"
| "positive_confidence name other = None"

fun reported_risk :: "'f arith \<Rightarrow> 'f module_result option \<Rightarrow> 'f" where
  "reported_risk F (Some (RiskResult r)) = r_overall_risk_score r"
| "reported_risk F other = lit F 0.0"

definition spec_contribution ::
  "'f arith \<Rightarrow> string \<Rightarrow> 'f \<Rightarrow> 'f module_result option \<Rightarrow> ('f \<times> 'f) option" where
  "spec_contribution F name weight slot =
     (if (case slot of None \<Rightarrow> False | Some r \<Rightarrow> is_error_result r) then None
      else if name = ''signature'' \<or> name = ''file_analysis'' then
        (case slot of
           None \<Rightarrow> None
         | Some r \<Rightarrow>
             map_option (\<lambda>confidence.
                 (fmul F (fmul F weight confidence) (lit F 10), fmul F weight confidence))
               (positive_confidence name r))
      else if name = ''behavioral'' \<or> name = ''encrypted'' \<or> name = ''social_engineering'' then
        Some (fmul F weight (reported_risk F slot),
              fmul F weight (fdiv F (reported_risk F slot) (lit F 10.0)))
      else None)"

definition spec_accumulate ::
  "'f arith \<Rightarrow> (string \<rightharpoonup> 'f module_result) \<Rightarrow> 'f \<times> 'f \<Rightarrow> string \<times> 'f \<Rightarrow> 'f \<times> 'f" where
  "spec_accumulate F mr totals item =
     (case spec_contribution F (fst item) (snd item) (mr (fst item)) of
        None \<Rightarrow> totals
      | Some c \<Rightarrow> (fadd F (fst totals) (fst c), fadd F (snd totals) (snd c)))"

definition spec_totals ::
  "'f arith \<Rightarrow> (string \<rightharpoonup> 'f module_result) \<Rightarrow> (string \<times> 'f) list \<Rightarrow> 'f \<times> 'f" where
  "spec_totals F mr W = foldl (spec_accumulate F mr) (lit F 0.0, lit F 0.0) W"

definition spec_level :: "'f arith \<Rightarrow> 'f \<Rightarrow> string" where
  "spec_level F risk_total =
     (if fge F risk_total (lit F 7.0) then ''high''
      else if fge F risk_total (lit F 4.0) then ''medium'' else ''low'')"

section \<open>Example inputs\<close>

definition example_fs :: filesystem where
  "example_fs =
     [''/tmp/dropper.ps1'' \<mapsto>
        Regular ''00ff'' ''PowerShell -c IEX (DownloadString x); cmd.exe /c mshta'' 55,
      ''/tmp/notes.txt'' \<mapsto> Regular ''11aa'' ''CMD.EXE and POWERSHELL'' 22,
      ''/tmp/empty.bin'' \<mapsto>
        Regular ''e3b0c44298fc1c149afbf4c8996fb92427ae41e4649b934ca495991b7852b855'' [] 0,
      ''/tmp/clean.txt'' \<mapsto> Regular ''22bb'' ''run cmd.exe by hand'' 19,
      ''/tmp'' \<mapsto> Unreadable 4096]"

definition example_process :: process where
  "example_process =
     \<lparr>p_pid = 4012, p_name = Some ''cmd.exe'',
      p_cmdline = Some [''cmd.exe'', ''/c'', ''net user'']\<rparr>"

definition idle_machine :: machine where
  "idle_machine = \<lparr>live_processes = [], live_connections = Some []\<rparr>"


text \<open>The busy machine, its one connection now over IPv6 loopback, to the same port.\<close>

definition ipv6_machine :: machine where
  "ipv6_machine =
     \<lparr>live_processes = [example_process],
      live_connections =
        Some [\<lparr>lc_laddr = Some (''::1'', 50000), lc_raddr = Some (''::1'', 4444),
               lc_status = ''ESTABLISHED'', lc_pid = Some 4012\<rparr>]\<rparr>"

definition supplied_snapshot :: snapshot where
  "supplied_snapshot =
     \<lparr>s_timestamp = ''2024-01-01T00:00:00'', s_error = None,
      processes = [example_process], network_connections = []\<rparr>"

definition other_snapshot :: snapshot where
  "other_snapshot =
     \<lparr>s_timestamp = ''2023-06-30T12:00:00'', s_error = None,
      processes = [], network_connections = []\<rparr>"


definition snapshot_bundle :: "(snapshot, network_data, communication) input_bundle" where
  "snapshot_bundle =
     \<lparr>b_file_path = None, b_system_data = Some supplied_snapshot, b_network_data = None,
      b_communication_data = None\<rparr>"

definition example_communication :: communication where
  "example_communication = \<lparr>c_email = None, c_urls = [], c_content = ''hello''\<rparr>"

definition mixed_bundle :: "(snapshot, network_data, communication) input_bundle" where
  "mixed_bundle =
     \<lparr>b_file_path = Some ''/tmp/dropper.ps1'', b_system_data = Some supplied_snapshot,
      b_network_data = None, b_communication_data = Some example_communication\<rparr>"





text \<open>A weight map whose values are all numbers.\<close>

definition numeric_weights :: "(string \<times> 'f) list \<Rightarrow> (string \<times> 'f pyval) list" where
  "numeric_weights W = map (\<lambda>(k, x). (k, PyNum x)) W"

section \<open>Properties of the signature detector\<close>

lemma count_matches_filter:
  "count_matches ss content n = n + length (filter (\<lambda>s. contains (lower s) content) ss)"
  by (induction ss arbitrary: n) auto

lemma check_yara_rules_regular:
  assumes "fs file_path = Some (Regular h t n)"
  shows "check_yara_rules fs now file_path =
     (if rule_hits t \<ge> 2 then
        \<lparr>sig_detected = True, sig_threat_type = ''YARA: suspicious_strings'',
         sig_confidence = 0.8, sig_method = ''yara'', sig_timestamp = now,
         sig_details = Some \<lparr>d_hash = None, d_signature_match = None,
                         d_rule = Some ''suspicious_strings'', d_matches = Some (rule_hits t)\<rparr>,
         sig_error = None\<rparr>
      else
        \<lparr>sig_detected = False, sig_threat_type = ''Clean'', sig_confidence = 0.0,
         sig_method = ''yara'', sig_timestamp = now, sig_details = None, sig_error = None\<rparr>)"
  using assms
  by (simp add: check_yara_rules_def yara_rules_def count_matches_filter rule_hits_def Let_def)

lemma check_yara_rules_unreadable:
  assumes "fs file_path = Some (Unreadable n)"
  shows "\<not> sig_detected (check_yara_rules fs now file_path)"
  using assms by (simp add: check_yara_rules_def)

text \<open>
  C6 (as amended). A missing file gives an error-shaped result (detected false, error
  \<open>File not found\<close>), nothing is raised. For an existing file: a hash found in the
  signature table gives detected with confidence 0.95 and the table's label; otherwise, when
  at least two of the three rule strings occur in the text, compared without case, the
  result is detected with confidence 0.8, method \<open>yara\<close> and label
  \<open>YARA: suspicious_strings\<close>; otherwise detected is false with confidence 0.0.
\<close>

theorem signature_adapter_cases:
  "(fs file_path = None \<longrightarrow>
      \<not> sig_detected (sig_detect_threats fs now file_path)
      \<and> sig_confidence (sig_detect_threats fs now file_path) = 0
      \<and> sig_error (sig_detect_threats fs now file_path) = Some ''File not found'')
   \<and> (fs file_path \<noteq> None
        \<and> map_of signature_database (calculate_hash fs file_path) = Some label \<longrightarrow>
      sig_detected (sig_detect_threats fs now file_path)
      \<and> sig_confidence (sig_detect_threats fs now file_path) = 0.95
      \<and> sig_threat_type (sig_detect_threats fs now file_path) = label
      \<and> sig_method (sig_detect_threats fs now file_path) = ''signature'')
   \<and> (fs file_path = Some (Regular h t n) \<and> map_of signature_database h = None
        \<and> rule_hits t \<ge> 2 \<longrightarrow>
      sig_detected (sig_detect_threats fs now file_path)
      \<and> sig_confidence (sig_detect_threats fs now file_path) = 0.8
      \<and> sig_threat_type (sig_detect_threats fs now file_path) = ''YARA: suspicious_strings''
      \<and> sig_method (sig_detect_threats fs now file_path) = ''yara'')
   \<and> (fs file_path = Some (Regular h t n) \<and> map_of signature_database h = None
        \<and> rule_hits t < 2 \<longrightarrow>
      \<not> sig_detected (sig_detect_threats fs now file_path)
      \<and> sig_confidence (sig_detect_threats fs now file_path) = 0)
   \<and> (fs file_path = Some (Unreadable n) \<longrightarrow>
      \<not> sig_detected (sig_detect_threats fs now file_path)
      \<and> sig_confidence (sig_detect_threats fs now file_path) = 0)"
proof (intro conjI impI)
  assume "fs file_path = Some (Unreadable n)"
  then show "\<not> sig_detected (sig_detect_threats fs now file_path)"
    and "sig_confidence (sig_detect_threats fs now file_path) = 0"
    by (simp_all add: sig_detect_threats_def calculate_hash_def signature_database_def
        check_yara_rules_def Let_def)
next
  assume a: "fs file_path = Some (Regular h t n) \<and> map_of signature_database h = None
        \<and> rule_hits t < 2"
  then have y: "check_yara_rules fs now file_path =
        \<lparr>sig_detected = False, sig_threat_type = ''Clean'', sig_confidence = 0.0,
         sig_method = ''yara'', sig_timestamp = now, sig_details = None, sig_error = None\<rparr>"
    using check_yara_rules_regular [of fs file_path h t n now] by simp
  from a show "\<not> sig_detected (sig_detect_threats fs now file_path)"
    and "sig_confidence (sig_detect_threats fs now file_path) = 0"
    by (simp_all add: sig_detect_threats_def calculate_hash_def y Let_def)
next
  assume a: "fs file_path = Some (Regular h t n) \<and> map_of signature_database h = None
        \<and> rule_hits t \<ge> 2"
  then have y: "check_yara_rules fs now file_path =
        \<lparr>sig_detected = True, sig_threat_type = ''YARA: suspicious_strings'',
         sig_confidence = 0.8, sig_method = ''yara'', sig_timestamp = now,
         sig_details = Some \<lparr>d_hash = None, d_signature_match = None,
                         d_rule = Some ''suspicious_strings'', d_matches = Some (rule_hits t)\<rparr>,
         sig_error = None\<rparr>"
    using check_yara_rules_regular [of fs file_path h t n now] by simp
  from a show "sig_detected (sig_detect_threats fs now file_path)"
    and "sig_confidence (sig_detect_threats fs now file_path) = 0.8"
    and "sig_threat_type (sig_detect_threats fs now file_path) = ''YARA: suspicious_strings''"
    and "sig_method (sig_detect_threats fs now file_path) = ''yara''"
    by (simp_all add: sig_detect_threats_def calculate_hash_def y Let_def)
qed (auto simp: sig_detect_threats_def Let_def)

theorem signature_adapter_cases_witness:
  "(example_fs ''/tmp/missing'' = None
      \<and> sig_error (sig_detect_threats example_fs ''2024-01-01T00:00:00'' ''/tmp/missing'')
          = Some ''File not found'')
   \<and> (map_of signature_database (calculate_hash example_fs ''/tmp/empty.bin'')
          = Some ''Trojan.Generic''
      \<and> sig_confidence (sig_detect_threats example_fs ''2024-01-01T00:00:00'' ''/tmp/empty.bin'')
          = 0.95)
   \<and> (rule_hits ''CMD.EXE and POWERSHELL'' \<ge> 2
      \<and> sig_method (sig_detect_threats example_fs ''2024-01-01T00:00:00'' ''/tmp/notes.txt'')
          = ''yara'')
   \<and> (rule_hits ''run cmd.exe by hand'' < 2
      \<and> \<not> sig_detected (sig_detect_threats example_fs ''2024-01-01T00:00:00'' ''/tmp/clean.txt''))
   \<and> (example_fs ''/tmp'' = Some (Unreadable 4096)
      \<and> \<not> sig_detected (sig_detect_threats example_fs ''2024-01-01T00:00:00'' ''/tmp''))"
proof -
  have h1: "example_fs ''/tmp/missing'' = None"
    by (simp add: example_fs_def)
  have h2: "example_fs ''/tmp/empty.bin'' \<noteq> None
      \<and> map_of signature_database (calculate_hash example_fs ''/tmp/empty.bin'')
          = Some ''Trojan.Generic''"
    by (simp add: example_fs_def calculate_hash_def signature_database_def)
  have h3: "example_fs ''/tmp/notes.txt'' = Some (Regular ''11aa'' ''CMD.EXE and POWERSHELL'' 22)
      \<and> map_of signature_database ''11aa'' = None
      \<and> rule_hits ''CMD.EXE and POWERSHELL'' \<ge> 2"
    by (simp add: example_fs_def signature_database_def rule_hits_def lower_def)
  have h4: "example_fs ''/tmp/clean.txt'' = Some (Regular ''22bb'' ''run cmd.exe by hand'' 19)
      \<and> map_of signature_database ''22bb'' = None
      \<and> rule_hits ''run cmd.exe by hand'' < 2"
    by (simp add: example_fs_def signature_database_def rule_hits_def lower_def)
  have h5: "example_fs ''/tmp'' = Some (Unreadable 4096)"
    by (simp add: example_fs_def)
  have c1: "sig_error (sig_detect_threats example_fs ''2024-01-01T00:00:00'' ''/tmp/missing'')
          = Some ''File not found''"
    using h1 signature_adapter_cases [of example_fs "''/tmp/missing''"
        "''2024-01-01T00:00:00''"] by blast
  have c2: "sig_confidence (sig_detect_threats example_fs ''2024-01-01T00:00:00'' ''/tmp/empty.bin'')
          = 0.95"
    using h2 signature_adapter_cases [of example_fs "''/tmp/empty.bin''"
        "''2024-01-01T00:00:00''" "''Trojan.Generic''"] by blast
  have c3: "sig_method (sig_detect_threats example_fs ''2024-01-01T00:00:00'' ''/tmp/notes.txt'')
          = ''yara''"
    using h3 signature_adapter_cases [of example_fs "''/tmp/notes.txt''"
        "''2024-01-01T00:00:00''" _ "''11aa''" "''CMD.EXE and POWERSHELL''" 22] by blast
  have c4: "\<not> sig_detected (sig_detect_threats example_fs ''2024-01-01T00:00:00'' ''/tmp/clean.txt'')"
    using h4 signature_adapter_cases [of example_fs "''/tmp/clean.txt''"
        "''2024-01-01T00:00:00''" _ "''22bb''" "''run cmd.exe by hand''" 19] by blast
  have c5: "\<not> sig_detected (sig_detect_threats example_fs ''2024-01-01T00:00:00'' ''/tmp'')"
    using h5 signature_adapter_cases [of example_fs "''/tmp''"
        "''2024-01-01T00:00:00''" _ _ _ 4096] by blast
  show ?thesis using h1 h2 h3 h4 h5 c1 c2 c3 c4 c5 by blast
qed

text \<open>
  The claim as stated fails on the method: a file whose hash is not in the table and whose
  text holds two of the three strings literally is detected with confidence 0.8, but the
  method is \<open>yara\<close>, not \<open>rule-match\<close>.
\<close>

theorem signature_adapter_counterexample:
  "example_fs ''/tmp/dropper.ps1''
      = Some (Regular ''00ff'' ''PowerShell -c IEX (DownloadString x); cmd.exe /c mshta'' 55)
   \<and> map_of signature_database (calculate_hash example_fs ''/tmp/dropper.ps1'') = None
   \<and> contains ''cmd.exe'' ''PowerShell -c IEX (DownloadString x); cmd.exe /c mshta''
   \<and> contains ''DownloadString'' ''PowerShell -c IEX (DownloadString x); cmd.exe /c mshta''
   \<and> sig_detected (sig_detect_threats example_fs ''2024-01-01T00:00:00'' ''/tmp/dropper.ps1'')
   \<and> sig_method (sig_detect_threats example_fs ''2024-01-01T00:00:00'' ''/tmp/dropper.ps1'')
        \<noteq> ''rule-match''"
  by (simp add: example_fs_def calculate_hash_def signature_database_def sig_detect_threats_def
      check_yara_rules_def yara_rules_def lower_def Let_def)

section \<open>Properties of the file analyzer\<close>

lemma scan_patterns_filter:
  "scan_patterns lw ps content (k, found) =
     (k + length (filter (\<lambda>pat. contains (lw pat) content) ps),
      found @ filter (\<lambda>pat. contains (lw pat) content) ps)"
  by (induction ps arbitrary: k found) auto

lemma length_malicious_patterns: "length malicious_patterns = 9"
  by (simp add: malicious_patterns_def)

lemma predict_regular:
  assumes "fs file_path = Some (Regular h t n)"
  shows "file_prediction (predict lw fs now file_path) =
           (if real (pattern_hits lw t) / 9 > 0.3 then ''malicious''
            else if real (pattern_hits lw t) / 9 > 0.1 then ''suspicious'' else ''benign'')"
    and "file_confidence (predict lw fs now file_path) =
           (if real (pattern_hits lw t) / 9 > 0.3 then min 0.9 (0.5 + real (pattern_hits lw t) / 9 * 0.4)
            else if real (pattern_hits lw t) / 9 > 0.1 then 0.6 else 0.8)"
    and "map_option f_threat_score (file_features (predict lw fs now file_path)) =
           Some (Some (real (pattern_hits lw t) / 9))"
  using assms
  by (simp_all add: predict_def scan_patterns_filter length_malicious_patterns
      pattern_hits_def Let_def)

text \<open>
  C7. For an existing file whose text can be read, and \<open>str.lower\<close> whatever it maps
  non-ASCII characters to, the file adapter's threat score is the number of the nine fixed
  patterns occurring (lowercased) in the lowercased content, divided by 9; the prediction is malicious with confidence
  min(0.9, 0.5 + score * 0.4) iff score > 0.3, suspicious with confidence 0.6 iff
  0.1 < score <= 0.3, and benign with confidence 0.8 otherwise.
\<close>

theorem file_adapter_thresholds:
  assumes "fs file_path = Some (Regular h t n)"
  shows "map_option f_threat_score (file_features (predict lw fs now file_path))
           = Some (Some (real (pattern_hits lw t) / 9))
     \<and> (file_prediction (predict lw fs now file_path) = ''malicious''
           \<longleftrightarrow> real (pattern_hits lw t) / 9 > 0.3)
     \<and> (real (pattern_hits lw t) / 9 > 0.3 \<longrightarrow>
           file_confidence (predict lw fs now file_path)
             = min 0.9 (0.5 + real (pattern_hits lw t) / 9 * 0.4))
     \<and> (file_prediction (predict lw fs now file_path) = ''suspicious''
           \<longleftrightarrow> real (pattern_hits lw t) / 9 > 0.1 \<and> real (pattern_hits lw t) / 9 \<le> 0.3)
     \<and> (real (pattern_hits lw t) / 9 > 0.1 \<and> real (pattern_hits lw t) / 9 \<le> 0.3 \<longrightarrow>
           file_confidence (predict lw fs now file_path) = 0.6)
     \<and> (file_prediction (predict lw fs now file_path) = ''benign''
           \<longleftrightarrow> real (pattern_hits lw t) / 9 \<le> 0.1)
     \<and> (real (pattern_hits lw t) / 9 \<le> 0.1 \<longrightarrow>
           file_confidence (predict lw fs now file_path) = 0.8)"
  using predict_regular [of fs file_path h t n lw now, OF assms] by auto

theorem file_adapter_thresholds_witness:
  "example_fs ''/tmp/dropper.ps1''
      = Some (Regular ''00ff'' ''PowerShell -c IEX (DownloadString x); cmd.exe /c mshta'' 55)
   \<and> file_prediction (predict lower example_fs ''2024-01-01T00:00:00'' ''/tmp/dropper.ps1'')
      = ''malicious''
   \<and> file_confidence (predict lower example_fs ''2024-01-01T00:00:00'' ''/tmp/dropper.ps1'')
      = 61 / 90"
proof -
  have node: "example_fs ''/tmp/dropper.ps1''
      = Some (Regular ''00ff'' ''PowerShell -c IEX (DownloadString x); cmd.exe /c mshta'' 55)"
    by (simp add: example_fs_def)
  have hits: "pattern_hits lower ''PowerShell -c IEX (DownloadString x); cmd.exe /c mshta'' = 4"
    by (simp add: pattern_hits_def malicious_patterns_def lower_def)
  show ?thesis
    using node
      file_adapter_thresholds [of example_fs "''/tmp/dropper.ps1''" "''00ff''"
        "''PowerShell -c IEX (DownloadString x); cmd.exe /c mshta''" 55 lower
        "''2024-01-01T00:00:00''"]
    by (simp add: hits)
qed

section \<open>Properties of the weight update\<close>

lemma py_sum_fault:
  "\<exists>v\<in>set vs. \<not> is_number v \<Longrightarrow> py_sum F vs acc = Inl ''unsupported operand type(s) for +''"
  by (induction F vs acc rule: py_sum.induct) (auto simp: is_number_def)

text \<open>
  C10. For every weight map holding a value that is not a number, the sum raises, the
  fault is caught, and the stored weights stay exactly as they were: neither normalised
  from the new map nor reset to the defaults; only a message is printed.
\<close>

theorem update_weights_fault:
  assumes "\<exists>v\<in>set (map snd W). \<not> is_number v"
  shows "update_detection_weights st W
           = (st, Some ''Error updating weights: unsupported operand type(s) for +'')"
  using py_sum_fault [OF assms, of exact "lit exact 0"]
  by (simp add: update_detection_weights_def update_detection_weights_in_def)

theorem update_weights_fault_witness:
  "(\<exists>v\<in>set (map snd [(''signature'', PyNum (1::real)), (''behavioral'', PyStr ''high'')]).
       \<not> is_number v)
   \<and> fst (update_detection_weights [(''signature'', 1 / 2), (''behavioral'', 1 / 2)]
            [(''signature'', PyNum 1), (''behavioral'', PyStr ''high'')])
       = [(''signature'', 1 / 2), (''behavioral'', 1 / 2)]"
proof -
  have h: "\<exists>v\<in>set (map snd [(''signature'', PyNum (1::real)), (''behavioral'', PyStr ''high'')]).
       \<not> is_number v"
    by (simp add: is_number_def)
  show ?thesis
    using h update_weights_fault [OF h, of "[(''signature'', 1 / 2), (''behavioral'', 1 / 2)]"]
    by simp
qed

section \<open>Properties of the coordinator\<close>

lemma exact_ops [simp]:
  "fadd exact a b = a + b" "fmul exact a b = a * b" "fdiv exact a b = a / b"
  "fge exact a b = (a \<ge> b)" "fgt exact a b = (a > b)" "flt exact a b = (a < b)"
  "lit exact x = x"
  by (simp_all add: exact_def)

lemma pymin_exact [simp]: "pymin exact a b = min a b"
  by (auto simp: pymin_def)





subsection \<open>What each block stores and appends\<close>

lemma store_risk_result_results:
  "v_module_results (store_risk_result name r results)
     = (v_module_results results)(name \<mapsto> RiskResult r)"
  by (simp add: store_risk_result_def store_result_def Let_def)

lemma store_risk_result_threats:
  "v_threats_detected (store_risk_result name r results)
     = v_threats_detected results @ r_threats_detected r"
  by (simp add: store_risk_result_def store_result_def Let_def)

lemma run_signature_results:
  "v_module_results (run_signature A data results) =
     (case module_outcome A data ''signature'' of
        None \<Rightarrow> v_module_results results
      | Some out \<Rightarrow> (v_module_results results)(''signature'' \<mapsto> stored out))"
  by (simp add: run_signature_def module_outcome_def wrap_outcome_def stored_def
      store_result_def Let_def split: option.splits sum.splits)

lemma run_signature_threats:
  "v_threats_detected (run_signature A data results) =
     v_threats_detected results @ outcome_threats (module_outcome A data ''signature'')"
  by (simp add: run_signature_def module_outcome_def wrap_outcome_def outcome_threats_def
      store_result_def Let_def split: option.splits sum.splits)

lemma run_file_analysis_results:
  "v_module_results (run_file_analysis A data results) =
     (case module_outcome A data ''file_analysis'' of
        None \<Rightarrow> v_module_results results
      | Some out \<Rightarrow> (v_module_results results)(''file_analysis'' \<mapsto> stored out))"
  by (simp add: run_file_analysis_def module_outcome_def wrap_outcome_def stored_def
      store_result_def Let_def split: option.splits sum.splits)

lemma run_file_analysis_threats:
  "v_threats_detected (run_file_analysis A data results) =
     v_threats_detected results @ outcome_threats (module_outcome A data ''file_analysis'')"
  by (simp add: run_file_analysis_def module_outcome_def wrap_outcome_def outcome_threats_def
      store_result_def Let_def split: option.splits sum.splits)

lemma run_behavioral_results:
  "v_module_results (run_behavioral A data results) =
     (case module_outcome A data ''behavioral'' of
        None \<Rightarrow> v_module_results results
      | Some out \<Rightarrow> (v_module_results results)(''behavioral'' \<mapsto> stored out))"
  by (simp add: run_behavioral_def module_outcome_def wrap_outcome_def stored_def
      store_result_def store_risk_result_results split: option.splits sum.splits)

lemma run_behavioral_threats:
  "v_threats_detected (run_behavioral A data results) =
     v_threats_detected results @ outcome_threats (module_outcome A data ''behavioral'')"
  by (simp add: run_behavioral_def module_outcome_def wrap_outcome_def outcome_threats_def
      store_result_def store_risk_result_threats split: option.splits sum.splits)

lemma run_encrypted_results:
  "v_module_results (run_encrypted A data results) =
     (case module_outcome A data ''encrypted'' of
        None \<Rightarrow> v_module_results results
      | Some out \<Rightarrow> (v_module_results results)(''encrypted'' \<mapsto> stored out))"
  by (simp add: run_encrypted_def module_outcome_def wrap_outcome_def stored_def
      store_result_def store_risk_result_results split: option.splits sum.splits)

lemma run_encrypted_threats:
  "v_threats_detected (run_encrypted A data results) =
     v_threats_detected results @ outcome_threats (module_outcome A data ''encrypted'')"
  by (simp add: run_encrypted_def module_outcome_def wrap_outcome_def outcome_threats_def
      store_result_def store_risk_result_threats split: option.splits sum.splits)

lemma run_social_engineering_results:
  "v_module_results (run_social_engineering A data results) =
     (case module_outcome A data ''social_engineering'' of
        None \<Rightarrow> v_module_results results
      | Some out \<Rightarrow> (v_module_results results)(''social_engineering'' \<mapsto> stored out))"
  by (simp add: run_social_engineering_def module_outcome_def wrap_outcome_def stored_def
      store_result_def store_risk_result_results split: option.splits sum.splits)

lemma run_social_engineering_threats:
  "v_threats_detected (run_social_engineering A data results) =
     v_threats_detected results @ outcome_threats (module_outcome A data ''social_engineering'')"
  by (simp add: run_social_engineering_def module_outcome_def wrap_outcome_def
      outcome_threats_def store_result_def store_risk_result_threats
      split: option.splits sum.splits)

lemma module_outcome_other:
  "name \<notin> set module_order \<Longrightarrow> module_outcome A data name = None"
  by (simp add: module_outcome_def module_order_def)

lemma run_signature_slot:
  "v_module_results (run_signature A data results) name =
     (if name = ''signature'' \<and> module_outcome A data ''signature'' \<noteq> None
      then map_option stored (module_outcome A data ''signature'')
      else v_module_results results name)"
  unfolding run_signature_results by (simp split: option.splits)

lemma run_file_analysis_slot:
  "v_module_results (run_file_analysis A data results) name =
     (if name = ''file_analysis'' \<and> module_outcome A data ''file_analysis'' \<noteq> None
      then map_option stored (module_outcome A data ''file_analysis'')
      else v_module_results results name)"
  unfolding run_file_analysis_results by (simp split: option.splits)

lemma run_behavioral_slot:
  "v_module_results (run_behavioral A data results) name =
     (if name = ''behavioral'' \<and> module_outcome A data ''behavioral'' \<noteq> None
      then map_option stored (module_outcome A data ''behavioral'')
      else v_module_results results name)"
  unfolding run_behavioral_results by (simp split: option.splits)

lemma run_encrypted_slot:
  "v_module_results (run_encrypted A data results) name =
     (if name = ''encrypted'' \<and> module_outcome A data ''encrypted'' \<noteq> None
      then map_option stored (module_outcome A data ''encrypted'')
      else v_module_results results name)"
  unfolding run_encrypted_results by (simp split: option.splits)

lemma run_social_engineering_slot:
  "v_module_results (run_social_engineering A data results) name =
     (if name = ''social_engineering'' \<and> module_outcome A data ''social_engineering'' \<noteq> None
      then map_option stored (module_outcome A data ''social_engineering'')
      else v_module_results results name)"
  unfolding run_social_engineering_results by (simp split: option.splits)

lemmas run_slots = run_signature_slot run_file_analysis_slot run_behavioral_slot
  run_encrypted_slot run_social_engineering_slot

lemma run_modules_results:
  "v_module_results (run_modules A data (initial_results F now)) name
     = map_option stored (module_outcome A data name)"
proof (cases "name \<in> set module_order")
  case False
  then have neq: "name \<noteq> ''signature''" "name \<noteq> ''file_analysis''" "name \<noteq> ''behavioral''"
    "name \<noteq> ''encrypted''" "name \<noteq> ''social_engineering''"
    by (auto simp: module_order_def)
  have "v_module_results (run_modules A data (initial_results F now)) name = None"
    unfolding run_modules_def run_slots using neq by (simp add: initial_results_def)
  then show ?thesis by (simp add: module_outcome_other [OF False])
next
  case True
  then have "name = ''signature'' \<or> name = ''file_analysis'' \<or> name = ''behavioral''
    \<or> name = ''encrypted'' \<or> name = ''social_engineering''"
    by (simp add: module_order_def)
  then show ?thesis
  proof (elim disjE)
    assume 1: "name = ''signature''"
    show ?thesis unfolding 1 run_modules_def run_slots
      by (cases "module_outcome A data ''signature''") (simp_all add: initial_results_def)
  next
    assume 2: "name = ''file_analysis''"
    show ?thesis unfolding 2 run_modules_def run_slots
      by (cases "module_outcome A data ''file_analysis''") (simp_all add: initial_results_def)
  next
    assume 3: "name = ''behavioral''"
    show ?thesis unfolding 3 run_modules_def run_slots
      by (cases "module_outcome A data ''behavioral''") (simp_all add: initial_results_def)
  next
    assume 4: "name = ''encrypted''"
    show ?thesis unfolding 4 run_modules_def run_slots
      by (cases "module_outcome A data ''encrypted''") (simp_all add: initial_results_def)
  next
    assume 5: "name = ''social_engineering''"
    show ?thesis unfolding 5 run_modules_def run_slots
      by (cases "module_outcome A data ''social_engineering''")
        (simp_all add: initial_results_def)
  qed
qed

lemma run_modules_threats:
  "v_threats_detected (run_modules A data (initial_results F now))
     = concat (map (\<lambda>name. outcome_threats (module_outcome A data name)) module_order)"
  unfolding run_modules_def run_social_engineering_threats run_encrypted_threats
    run_behavioral_threats run_file_analysis_threats run_signature_threats
  by (simp add: initial_results_def module_order_def)



end
